theory Spec2Isabelle
  imports Complex_Main
begin

section \<open>JavaScript values as the map components receive them\<close>

text \<open>
  The payloads handled by \<^verbatim>\<open>normalizePoint\<close> and by the marker projection are whatever
  \<^verbatim>\<open>r.json()\<close> produced, so the model works on untyped JavaScript values.

  Numbers are IEEE doubles in the source. Here a finite number is an exact rational and
  the three special values are kept apart; rounding, overflow of a literal to
  \<^verbatim>\<open>Infinity\<close> and the sign of zero are not modelled. Comparison and subtraction
  follow the language on the special values (every comparison with \<^verbatim>\<open>NaN\<close> is false).
\<close>

datatype jsnum = NaN | PInf | NInf | Fin rat

datatype jsval =
    JUndefined
  | JNull
  | JBool bool
  | JNum jsnum
  | JStr string
  | JArr "jsval list"
  | JObj "(string \<times> jsval) list"

datatype jserr = TypeError

fun isNaN :: "jsnum \<Rightarrow> bool" where
  "isNaN NaN = True"
| "isNaN _ = False"

fun js_abs :: "jsnum \<Rightarrow> jsnum" where
  "js_abs NaN = NaN"
| "js_abs PInf = PInf"
| "js_abs NInf = PInf"
| "js_abs (Fin x) = Fin \<bar>x\<bar>"

fun js_lt :: "jsnum \<Rightarrow> jsnum \<Rightarrow> bool" where
  "js_lt NaN _ = False"
| "js_lt _ NaN = False"
| "js_lt (Fin x) (Fin y) = (x < y)"
| "js_lt (Fin x) PInf = True"
| "js_lt NInf (Fin y) = True"
| "js_lt NInf PInf = True"
| "js_lt _ _ = False"

definition js_gt :: "jsnum \<Rightarrow> jsnum \<Rightarrow> bool" where
  "js_gt a b = js_lt b a"

definition js_le :: "jsnum \<Rightarrow> jsnum \<Rightarrow> bool" where
  "js_le a b = (\<not> isNaN a \<and> \<not> isNaN b \<and> \<not> js_lt b a)"

fun js_sub :: "jsnum \<Rightarrow> jsnum \<Rightarrow> jsnum" where
  "js_sub NaN _ = NaN"
| "js_sub _ NaN = NaN"
| "js_sub (Fin x) (Fin y) = Fin (x - y)"
| "js_sub (Fin x) PInf = NInf"
| "js_sub (Fin x) NInf = PInf"
| "js_sub PInf PInf = NaN"
| "js_sub NInf NInf = NaN"
| "js_sub PInf _ = PInf"
| "js_sub NInf _ = NInf"

text \<open>\<^verbatim>\<open>!raw\<close>: the falsy values are undefined, null, false, 0, NaN and the empty string.\<close>

fun truthy :: "jsval \<Rightarrow> bool" where
  "truthy JUndefined = False"
| "truthy JNull = False"
| "truthy (JBool b) = b"
| "truthy (JNum n) = (\<not> isNaN n \<and> n \<noteq> Fin 0)"
| "truthy (JStr s) = (s \<noteq> [])"
| "truthy (JArr _) = True"
| "truthy (JObj _) = True"

fun typeof :: "jsval \<Rightarrow> string" where
  "typeof JUndefined = ''undefined''"
| "typeof JNull = ''object''"
| "typeof (JBool _) = ''boolean''"
| "typeof (JNum _) = ''number''"
| "typeof (JStr _) = ''string''"
| "typeof (JArr _) = ''object''"
| "typeof (JObj _) = ''object''"

fun isArray :: "jsval \<Rightarrow> bool" where
  "isArray (JArr _) = True"
| "isArray _ = False"

text \<open>
  Reading a property \<^verbatim>\<open>v.k\<close> or \<^verbatim>\<open>v["k"]\<close> of a value that is neither null nor
  undefined, for the keys the components read (\<^verbatim>\<open>lat\<close>, \<^verbatim>\<open>lng\<close>, their aliases,
  \<^verbatim>\<open>latitude\<close>, \<^verbatim>\<open>longitude\<close>, \<^verbatim>\<open>bus_id\<close>, \<^verbatim>\<open>coordinates\<close>): none of them is
  inherited from a prototype, so only a parsed object can hold one, and a missing key
  reads as undefined. Reading a property of null or undefined throws; the callers below
  write that branch out.
\<close>

fun getProp :: "jsval \<Rightarrow> string \<Rightarrow> jsval" where
  "getProp (JObj kvs) k = (case map_of kvs k of Some v \<Rightarrow> v | None \<Rightarrow> JUndefined)"
| "getProp _ k = JUndefined"

text \<open>The operator \<^verbatim>\<open>a ?? b\<close>.\<close>

definition nullish :: "jsval \<Rightarrow> jsval \<Rightarrow> jsval" where
  "nullish a b = (if a = JUndefined \<or> a = JNull then b else a)"

subsection \<open>String to number\<close>

text \<open>
  Strings are sequences of 8-bit code units; the white space that \<^verbatim>\<open>trim\<close> and
  \<^verbatim>\<open>Number\<close> strip is, in that range, TAB, LF, VT, FF, CR, SP and NBSP.
\<close>

definition isSpace :: "char \<Rightarrow> bool" where
  "isSpace c = ((of_char c :: nat) \<in> {9, 10, 11, 12, 13, 32, 160})"

definition trim :: "string \<Rightarrow> string" where
  "trim s = rev (dropWhile isSpace (rev (dropWhile isSpace s)))"

definition isDigit :: "char \<Rightarrow> bool" where
  "isDigit c = (48 \<le> (of_char c :: nat) \<and> (of_char c :: nat) \<le> 57)"

definition digitsVal :: "string \<Rightarrow> nat" where
  "digitsVal ds = foldl (\<lambda>acc c. 10 * acc + ((of_char c :: nat) - 48)) 0 ds"

text \<open>
  The digit of a character in a radix, for the prefixed literals \<^verbatim>\<open>0x\<close>, \<^verbatim>\<open>0o\<close>,
  \<^verbatim>\<open>0b\<close>.
\<close>

definition radixDigit :: "nat \<Rightarrow> char \<Rightarrow> nat option" where
  "radixDigit r c =
     (let n = (of_char c :: nat);
          d = (if 48 \<le> n \<and> n \<le> 57 then n - 48
               else if 97 \<le> n \<and> n \<le> 102 then n - 87
               else if 65 \<le> n \<and> n \<le> 70 then n - 55
               else 16)
      in if d < r then Some d else None)"

fun radixVal :: "nat \<Rightarrow> nat \<Rightarrow> string \<Rightarrow> nat option" where
  "radixVal r acc [] = Some acc"
| "radixVal r acc (c # cs) =
     (case radixDigit r c of None \<Rightarrow> None | Some d \<Rightarrow> radixVal r (r * acc + d) cs)"

definition nonDecimal :: "string \<Rightarrow> jsnum option" where
  "nonDecimal s =
     (case s of
        c0 # c1 # d # ds \<Rightarrow>
          (if c0 \<noteq> CHR ''0'' then None
           else let r = (if c1 = CHR ''x'' \<or> c1 = CHR ''X'' then 16
                         else if c1 = CHR ''o'' \<or> c1 = CHR ''O'' then 8
                         else if c1 = CHR ''b'' \<or> c1 = CHR ''B'' then 2
                         else (0::nat))
                in if r = 0 then None
                   else map_option (\<lambda>n. Fin (of_nat n)) (radixVal r 0 (d # ds)))
      | _ \<Rightarrow> None)"

text \<open>
  The exponent part: nothing, or \<^verbatim>\<open>e\<close>/\<^verbatim>\<open>E\<close>, an optional sign and at least one digit,
  up to the end of the string.
\<close>

definition exponentPart :: "string \<Rightarrow> int option" where
  "exponentPart s =
     (case s of
        [] \<Rightarrow> Some 0
      | c # cs \<Rightarrow>
          (if c = CHR ''e'' \<or> c = CHR ''E'' then
             (let neg = (cs \<noteq> [] \<and> hd cs = CHR ''-'');
                  ds = (if cs \<noteq> [] \<and> (hd cs = CHR ''-'' \<or> hd cs = CHR ''+'') then tl cs else cs)
              in if ds \<noteq> [] \<and> list_all isDigit ds
                 then Some (if neg then - int (digitsVal ds) else int (digitsVal ds))
                 else None)
           else None))"

definition scale10 :: "rat \<Rightarrow> int \<Rightarrow> rat" where
  "scale10 m e = (if 0 \<le> e then m * 10 ^ nat e else m / 10 ^ nat (- e))"

definition unsignedDecimal :: "string \<Rightarrow> jsnum option" where
  "unsignedDecimal s =
     (if s = ''Infinity'' then Some PInf
      else
        let ip = takeWhile isDigit s;
            r1 = dropWhile isDigit s;
            dot = (r1 \<noteq> [] \<and> hd r1 = CHR ''.'');
            fp = (if dot then takeWhile isDigit (tl r1) else []);
            r2 = (if dot then dropWhile isDigit (tl r1) else r1)
        in if ip = [] \<and> fp = [] then None
           else (case exponentPart r2 of
                   None \<Rightarrow> None
                 | Some e \<Rightarrow>
                     Some (Fin (scale10 (of_nat (digitsVal (ip @ fp)) / 10 ^ length fp) e))))"

fun js_neg :: "jsnum \<Rightarrow> jsnum" where
  "js_neg NaN = NaN"
| "js_neg PInf = NInf"
| "js_neg NInf = PInf"
| "js_neg (Fin x) = Fin (- x)"

text \<open>
  \<^verbatim>\<open>Number(s)\<close> on a string: strip white space; the empty string is 0; a prefixed
  literal has no sign; a decimal literal has an optional sign; anything else is NaN.
\<close>

definition stringToNumber :: "string \<Rightarrow> jsnum" where
  "stringToNumber s =
     (let t = trim s
      in if t = [] then Fin 0
         else (case nonDecimal t of
                 Some n \<Rightarrow> n
               | None \<Rightarrow>
                   (let neg = (hd t = CHR ''-'');
                        u = (if hd t = CHR ''-'' \<or> hd t = CHR ''+'' then tl t else t)
                    in (case unsignedDecimal u of
                          None \<Rightarrow> NaN
                        | Some n \<Rightarrow> (if neg then js_neg n else n)))))"

subsection \<open>Any value to number\<close>

text \<open>
  Converting an object to a primitive calls its \<^verbatim>\<open>toString\<close>. A parsed object that has
  an own key \<^verbatim>\<open>toString\<close> shadows the inherited method with a value that is not callable,
  and the conversion throws a TypeError; otherwise the object reads \<^verbatim>\<open>[object Object]\<close>.
  An array is joined with commas, null and undefined elements reading as the empty string.
\<close>

fun toStringThrows :: "jsval \<Rightarrow> bool" where
  "toStringThrows (JObj kvs) = (map_of kvs ''toString'' \<noteq> None)"
| "toStringThrows (JArr xs) = list_ex toStringThrows xs"
| "toStringThrows _ = False"

text \<open>
  \<^verbatim>\<open>Number(v)\<close>. For an array the joined string is converted: the empty array gives the
  empty string and so 0; a one-element array gives what its element's string gives (a number
  prints to a string that reads back as itself, \<^verbatim>\<open>true\<close> and \<^verbatim>\<open>[object Object]\<close>
  are no numerals); a longer array gives a string with a comma in it, which is no numeral.
\<close>

fun toNumber :: "jsval \<Rightarrow> jserr + jsnum" where
  "toNumber JUndefined = Inr NaN"
| "toNumber JNull = Inr (Fin 0)"
| "toNumber (JBool b) = Inr (Fin (if b then 1 else 0))"
| "toNumber (JNum n) = Inr n"
| "toNumber (JStr s) = Inr (stringToNumber s)"
| "toNumber (JObj kvs) = (if toStringThrows (JObj kvs) then Inl TypeError else Inr NaN)"
| "toNumber (JArr []) = Inr (Fin 0)"
| "toNumber (JArr [x]) =
     (case x of
        JUndefined \<Rightarrow> Inr (Fin 0)
      | JNull \<Rightarrow> Inr (Fin 0)
      | JBool _ \<Rightarrow> Inr NaN
      | _ \<Rightarrow> toNumber x)"
| "toNumber (JArr (x # y # zs)) =
     (if toStringThrows (JArr (x # y # zs)) then Inl TypeError else Inr NaN)"

section \<open>normalizePoint\<close>

record geo =
  lat :: jsnum
  lng :: jsnum

text \<open>Lines 50 to 67: trim strings, convert, reject NaN, swap once, check the bounds.\<close>

definition trimIfString :: "jsval \<Rightarrow> jsval" where
  "trimIfString v = (case v of JStr s \<Rightarrow> JStr (trim s) | _ \<Rightarrow> v)"

definition swapAndCheck :: "jsnum \<Rightarrow> jsnum \<Rightarrow> geo option" where
  "swapAndCheck la lo =
     (if isNaN la \<or> isNaN lo then None
      else
        let swapped = (js_gt (js_abs la) (Fin 90) \<and> js_le (js_abs lo) (Fin 90));
            la' = (if swapped then lo else la);
            lo' = (if swapped then la else lo)
        in if js_gt (js_abs la') (Fin 90) \<or> js_gt (js_abs lo') (Fin 180) then None
           else Some \<lparr>lat = la', lng = lo'\<rparr>)"

definition coerceAndCheck :: "jsval \<Rightarrow> jsval \<Rightarrow> jserr + geo option" where
  "coerceAndCheck la lo =
     (case toNumber (trimIfString la) of
        Inl e \<Rightarrow> Inl e
      | Inr x \<Rightarrow>
          (case toNumber (trimIfString lo) of
             Inl e \<Rightarrow> Inl e
           | Inr y \<Rightarrow> Inr (swapAndCheck x y)))"

definition rawLat :: "jsval \<Rightarrow> jsval" where
  "rawLat raw =
     nullish (nullish (nullish (nullish (getProp raw ''lat'') (getProp raw ''lat ''))
       (getProp raw ''latitude'')) (getProp raw ''Latitude'')) (getProp raw ''Lat'')"

definition rawLng :: "jsval \<Rightarrow> jsval" where
  "rawLng raw =
     nullish (nullish (nullish (nullish (getProp raw ''lng'') (getProp raw ''lng ''))
       (getProp raw ''longitude'')) (getProp raw ''Longitude'')) (getProp raw ''Lng'')"

text \<open>
  Lines 40 to 48: the pair that goes on to the conversion. The nested branch reads
  \<^verbatim>\<open>lng.lat\<close> where \<^verbatim>\<open>typeof lng === "object"\<close>, which null satisfies: there the
  read throws.
\<close>

definition resolvePair :: "jsval \<Rightarrow> jserr + jsval \<times> jsval" where
  "resolvePair raw =
     (if rawLat raw = JUndefined \<and> rawLng raw \<noteq> JUndefined \<and> typeof (rawLng raw) = ''object''
      then (if rawLng raw = JNull then Inl TypeError
            else Inr (getProp (rawLng raw) ''lat'', getProp (rawLng raw) ''lng''))
      else Inr (rawLat raw, rawLng raw))"

text \<open>The whole function; \<^verbatim>\<open>null\<close> is \<^verbatim>\<open>Inr None\<close>.\<close>

definition normalizePoint :: "jsval \<Rightarrow> jserr + geo option" where
  "normalizePoint raw =
     (if \<not> truthy raw \<or> typeof raw \<noteq> ''object'' then Inr None
      else (case resolvePair raw of
              Inl e \<Rightarrow> Inl e
            | Inr (a, b) \<Rightarrow> coerceAndCheck a b))"

section \<open>The route polyline\<close>

text \<open>
  \<^verbatim>\<open>arr.map(f)\<close> where the callback may throw: the first throw leaves the whole
  expression, so the result is an error or the list of all results.
\<close>

fun mapThrowing :: "('a \<Rightarrow> jserr + 'b) \<Rightarrow> 'a list \<Rightarrow> jserr + 'b list" where
  "mapThrowing f [] = Inr []"
| "mapThrowing f (x # xs) =
     (case f x of
        Inl e \<Rightarrow> Inl e
      | Inr y \<Rightarrow> (case mapThrowing f xs of Inl e \<Rightarrow> Inl e | Inr ys \<Rightarrow> Inr (y # ys)))"

text \<open>\<^verbatim>\<open>.filter(Boolean)\<close> on a list of objects and nulls.\<close>

fun filterBoolean :: "'a option list \<Rightarrow> 'a list" where
  "filterBoolean [] = []"
| "filterBoolean (None # ps) = filterBoolean ps"
| "filterBoolean (Some p # ps) = p # filterBoolean ps"

text \<open>
  \<^verbatim>\<open>arr.filter((p, i, arr) => ...)\<close>: the callback receives the element, its index and the
  array being filtered, which is the input of the filter and not its output so far.
\<close>

definition filterIndexed :: "('a \<Rightarrow> nat \<Rightarrow> 'a list \<Rightarrow> bool) \<Rightarrow> 'a list \<Rightarrow> 'a list" where
  "filterIndexed f arr = map fst (filter (\<lambda>(p, i). f p i arr) (zip arr [0..<length arr]))"

text \<open>Line 106: both coordinate deltas are below \<^verbatim>\<open>1e-6\<close>.\<close>

definition withinEps :: "geo \<Rightarrow> geo \<Rightarrow> bool" where
  "withinEps prev p =
     (js_lt (js_abs (js_sub (lat prev) (lat p))) (Fin (1 / 1000000)) \<and>
      js_lt (js_abs (js_sub (lng prev) (lng p))) (Fin (1 / 1000000)))"

text \<open>Lines 103 to 107, the callback of the second filter.\<close>

definition keepPoint :: "geo \<Rightarrow> nat \<Rightarrow> geo list \<Rightarrow> bool" where
  "keepPoint p i arr =
     (if i = 0 then True
      else let prev = arr ! (i - 1) in \<not> withinEps prev p)"

text \<open>Lines 99 to 107 on the coordinate array of the route.\<close>

definition sanitize :: "jsval list \<Rightarrow> jserr + geo list" where
  "sanitize coordinates =
     (case mapThrowing normalizePoint coordinates of
        Inl e \<Rightarrow> Inl e
      | Inr ps \<Rightarrow> Inr (filterIndexed keepPoint (filterBoolean ps)))"

definition routeCoords :: "jsval \<Rightarrow> jserr + geo list" where
  "routeCoords route =
     (if \<not> truthy route \<or> \<not> isArray (getProp route ''coordinates'') then Inr []
      else (case getProp route ''coordinates'' of
              JArr cs \<Rightarrow> sanitize cs
            | _ \<Rightarrow> Inr []))"

text \<open>Line 115.\<close>

definition center :: "geo list \<Rightarrow> jsnum \<times> jsnum" where
  "center rc =
     (if length rc \<noteq> 0 then (lat (rc ! 0), lng (rc ! 0))
      else (Fin 12.8251353, Fin 77.5148474))"

section \<open>Bus markers\<close>

datatype icon = DEFAULT_ICON | HIGHLIGHT_ICON

record marker =
  key :: jsval
  position :: "jsval \<times> jsval"
  icon :: icon

text \<open>
  \<^verbatim>\<open>{ ...b, latitude: lat, longitude: lng }\<close>: the own properties of \<^verbatim>\<open>b\<close> with the two
  coordinates overriding. Only a parsed object reaches the spread, since any other value
  has no \<^verbatim>\<open>latitude\<close> and is dropped before.
\<close>

definition spreadCoords :: "jsval \<Rightarrow> jsnum \<Rightarrow> jsnum \<Rightarrow> jsval" where
  "spreadCoords b la lo =
     JObj ((''latitude'', JNum la) # (''longitude'', JNum lo) #
           (case b of JObj kvs \<Rightarrow> kvs | _ \<Rightarrow> []))"

text \<open>Lines 133 to 139; reading \<^verbatim>\<open>b.latitude\<close> of null or undefined throws.\<close>

definition ensureNumbers :: "jsval \<Rightarrow> jserr + jsval option" where
  "ensureNumbers b =
     (if b = JUndefined \<or> b = JNull then Inl TypeError
      else (case toNumber (getProp b ''latitude'') of
              Inl e \<Rightarrow> Inl e
            | Inr la \<Rightarrow>
                (case toNumber (getProp b ''longitude'') of
                   Inl e \<Rightarrow> Inl e
                 | Inr lo \<Rightarrow>
                     Inr (if isNaN la \<or> isNaN lo then None else Some (spreadCoords b la lo)))))"

text \<open>Line 142, and lines 77 to 81 of the plain variant of the component.\<close>

definition toMarker :: "jsval \<Rightarrow> marker" where
  "toMarker bus =
     \<lparr>key = getProp bus ''bus_id'',
      position = (getProp bus ''latitude'', getProp bus ''longitude''),
      icon = (if getProp bus ''bus_id'' = JStr ''V2BMTC'' then HIGHLIGHT_ICON else DEFAULT_ICON)\<rparr>"

text \<open>Lines 131 to 143: anything that is not an array renders no marker.\<close>

definition busMarkers :: "jsval \<Rightarrow> jserr + marker list" where
  "busMarkers rawBuses =
     (case rawBuses of
        JArr bs \<Rightarrow>
          (case mapThrowing ensureNumbers bs of
             Inl e \<Rightarrow> Inl e
           | Inr xs \<Rightarrow> Inr (map toMarker (filterBoolean xs)))
      | _ \<Rightarrow> Inr [])"

text \<open>
  Lines 135 and 136 for one record: it can be read (it is neither null nor undefined) and
  its two fields convert to the given pair of numbers.
\<close>

definition converts :: "jsval \<Rightarrow> jsnum \<times> jsnum \<Rightarrow> bool" where
  "converts b xy =
     (b \<noteq> JUndefined \<and> b \<noteq> JNull \<and>
      toNumber (getProp b ''latitude'') = Inr (fst xy) \<and>
      toNumber (getProp b ''longitude'') = Inr (snd xy))"

text \<open>
  Lines 76 to 82 of the plain variant, which maps the payload to markers as it is:
  \<^verbatim>\<open>buses.map\<close> throws when the payload is no array, and reading \<^verbatim>\<open>bus.bus_id\<close>
  throws on null.
\<close>

definition plainMarkers :: "jsval \<Rightarrow> jserr + marker list" where
  "plainMarkers buses =
     (case buses of
        JArr bs \<Rightarrow>
          mapThrowing
            (\<lambda>bus. if bus = JUndefined \<or> bus = JNull then Inl TypeError else Inr (toMarker bus)) bs
      | _ \<Rightarrow> Inl TypeError)"

section \<open>The refresh loops\<close>

text \<open>
  The pages run on one event loop: an effect starts a request and registers an interval, the
  interval fires, a request settles, the cleanup of the effect clears the interval. A run
  is the life of one instance of a page, as a sequence of these events, and each handler of
  the source is a function on the state of that instance. The number carried by a request
  is the position at which it was issued; it exists in the model only, to say which request
  an event settles: the source attaches nothing to a request.

  An instance is mounted once. When it is gone, by navigation or because a render threw
  (no component of the source catches a render error, so React removes the tree and runs
  the cleanups), its state cells are gone with it and React ignores the calls of its
  setters. A later visit of the page is another instance, with cells of its own, and is
  another run from the initial state.
\<close>

datatype phase = NotMounted | Mounted | Gone

subsection \<open>LiveTrackingPage\<close>

text \<open>
  \<^verbatim>\<open>buses\<close> is the state cell of the page, written only while the instance is mounted;
  the call of the setter is recorded in \<^verbatim>\<open>setBusesCalls\<close> either way.
\<close>

record live_state =
  buses :: jsval
  page :: phase
  interval :: bool
  pending :: "nat list"
  issued :: nat
  setBusesCalls :: "jsval list"
  consoleErrors :: nat

datatype live_event =
    Mount
  | Tick
  | Resolved nat jsval
  | Rejected nat
  | Unmount

definition live_init :: live_state where
  "live_init =
     \<lparr>buses = JArr [], page = NotMounted, interval = False, pending = [], issued = 0,
      setBusesCalls = [], consoleErrors = 0\<rparr>"

definition setBuses :: "jsval \<Rightarrow> live_state \<Rightarrow> live_state" where
  "setBuses d s =
     s\<lparr>setBusesCalls := setBusesCalls s @ [d],
       buses := (if page s = Mounted then d else buses s)\<rparr>"

text \<open>
  \<^verbatim>\<open>fetchBuses\<close> up to its \<^verbatim>\<open>await\<close>, and its two continuations: the rest of the
  \<^verbatim>\<open>try\<close> block when \<^verbatim>\<open>axios.get\<close> resolves with \<^verbatim>\<open>response.data\<close>, the
  \<^verbatim>\<open>catch\<close> block when it rejects.
\<close>

definition fetchBuses_request :: "live_state \<Rightarrow> live_state" where
  "fetchBuses_request s = s\<lparr>pending := pending s @ [issued s], issued := Suc (issued s)\<rparr>"

definition fetchBuses_resolved :: "jsval \<Rightarrow> live_state \<Rightarrow> live_state" where
  "fetchBuses_resolved d s = setBuses d s"

definition fetchBuses_rejected :: "live_state \<Rightarrow> live_state" where
  "fetchBuses_rejected s = s\<lparr>consoleErrors := Suc (consoleErrors s)\<rparr>"

text \<open>
  After a write the page renders again (lines 196 to 265). The render hands every record
  to the map library, which is not part of the repository, so whether rendering a payload
  throws is a parameter \<open>throws\<close> of the model. A render that throws removes the page.
\<close>

definition live_rerender :: "(jsval \<Rightarrow> bool) \<Rightarrow> live_state \<Rightarrow> live_state" where
  "live_rerender throws s =
     (if page s = Mounted \<and> throws (buses s) then s\<lparr>page := Gone, interval := False\<rparr> else s)"

text \<open>
  The effect of lines 182 to 186 runs once, on mount: \<^verbatim>\<open>fetchBuses()\<close>, then
  \<^verbatim>\<open>setInterval\<close>. Its cleanup is \<^verbatim>\<open>clearInterval\<close> and nothing else. An interval
  that was cleared does not fire, and only a request in flight settles.
\<close>

fun live_step :: "(jsval \<Rightarrow> bool) \<Rightarrow> live_event \<Rightarrow> live_state \<Rightarrow> live_state" where
  "live_step throws Mount s =
     (if page s = NotMounted
      then (fetchBuses_request (s\<lparr>page := Mounted\<rparr>))\<lparr>interval := True\<rparr>
      else s)"
| "live_step throws Tick s = (if interval s then fetchBuses_request s else s)"
| "live_step throws (Resolved k d) s =
     (if k \<in> set (pending s)
      then live_rerender throws (fetchBuses_resolved d (s\<lparr>pending := removeAll k (pending s)\<rparr>))
      else s)"
| "live_step throws (Rejected k) s =
     (if k \<in> set (pending s)
      then fetchBuses_rejected (s\<lparr>pending := removeAll k (pending s)\<rparr>)
      else s)"
| "live_step throws Unmount s = s\<lparr>page := Gone, interval := False\<rparr>"

definition live_run :: "(jsval \<Rightarrow> bool) \<Rightarrow> live_event list \<Rightarrow> live_state \<Rightarrow> live_state" where
  "live_run throws evs s = foldl (\<lambda>st e. live_step throws e st) s evs"

subsection \<open>The loaders built on fetch\<close>

text \<open>
  What \<^verbatim>\<open>fetch(url).then((r) => r.json())\<close> can deliver: \<^verbatim>\<open>fetch\<close> rejects when no
  response arrives and otherwise resolves with the response, whatever its status;
  \<^verbatim>\<open>r.json()\<close> rejects when the body is not JSON and otherwise resolves with the value.
\<close>

datatype body = NotJson | Json jsval

datatype fetch_result = NetworkError | Response nat body

text \<open>The chain of lines 79 to 82 of the map component, after the request settled.\<close>

record mapview_state =
  rawBuses :: jsval
  rawRoutes :: jsval
  loadErrors :: "string list"


subsection \<open>EtaView\<close>

text \<open>
  The effect depends on \<^verbatim>\<open>busId\<close>: it runs on mount and again whenever the route
  parameter changes, after the cleanup of its previous run, while the component and its
  state stay. A request remembers the bus it was issued for.
\<close>

record eta_state =
  busId :: string
  etaData :: jsval
  error :: jsval
  etaPage :: phase
  etaInterval :: bool
  etaPending :: "(nat \<times> string) list"
  etaIssued :: nat

datatype eta_event =
    EtaMount string
  | BusIdChanges string
  | EtaTick
  | Settled nat fetch_result
  | EtaUnmount

definition eta_init :: eta_state where
  "eta_init =
     \<lparr>busId = [], etaData = JNull, error = JNull, etaPage = NotMounted, etaInterval = False,
      etaPending = [], etaIssued = 0\<rparr>"

text \<open>Lines 13 to 23: \<^verbatim>\<open>fetchETA\<close> up to the fetch, and the chain after it settled.\<close>

definition fetchETA_request :: "eta_state \<Rightarrow> eta_state" where
  "fetchETA_request s =
     (if busId s = [] then s
      else s\<lparr>etaPending := etaPending s @ [(etaIssued s, busId s)],
             etaIssued := Suc (etaIssued s)\<rparr>)"

definition fetchETA_settled :: "fetch_result \<Rightarrow> eta_state \<Rightarrow> eta_state" where
  "fetchETA_settled r s =
     (case r of
        Response st (Json v) \<Rightarrow> s\<lparr>etaData := v, error := JNull\<rparr>
      | _ \<Rightarrow> s\<lparr>error := JStr ''Could not fetch ETA''\<rparr>)"

text \<open>
  What React accepts as a child of an element: strings, numbers, booleans, null and
  undefined, and arrays of such; an object makes the render throw.
\<close>

fun validChild :: "jsval \<Rightarrow> bool" where
  "validChild (JObj _) = False"
| "validChild (JArr xs) = list_all validChild xs"
| "validChild _ = True"

text \<open>
  Lines 60 to 76, the row of one stop. Reading a property of null throws;
  \<^verbatim>\<open>dist.toFixed(1)\<close> throws unless \<^verbatim>\<open>dist\<close> is a number; \<^verbatim>\<open>etaSec / 60\<close> is
  computed when \<^verbatim>\<open>etaSec\<close> is truthy and throws when its conversion to a number does;
  \<^verbatim>\<open>stop.stop\<close> is rendered as a child.
\<close>

definition stopRowThrows :: "jsval \<Rightarrow> bool" where
  "stopRowThrows stop =
     (stop = JUndefined \<or> stop = JNull \<or>
      typeof (getProp stop ''distance_meters'') \<noteq> ''number'' \<or>
      (truthy (getProp stop ''eta_seconds'') \<and>
         toNumber (getProp stop ''eta_seconds'') = Inl TypeError) \<or>
      \<not> validChild (getProp stop ''stop''))"

text \<open>
  Lines 36 to 80, the dashboard of a truthy payload: \<^verbatim>\<open>toFixed(2)\<close> is called on a truthy
  speed and throws unless the speed is a number; \<^verbatim>\<open>etaData.eta.map\<close> throws unless
  \<^verbatim>\<open>eta\<close> is an array.
\<close>

definition dashboardThrows :: "jsval \<Rightarrow> bool" where
  "dashboardThrows d =
     ((truthy (getProp d ''current_speed_kmph'') \<and>
         typeof (getProp d ''current_speed_kmph'') \<noteq> ''number'') \<or>
      (case getProp d ''eta'' of
         JArr stops \<Rightarrow> list_ex stopRowThrows stops
       | _ \<Rightarrow> True))"

text \<open>Lines 32 to 82: what the component shows, or that its render throws.\<close>

datatype eta_screen = ErrorNotice jsval | Loading | Dashboard jsval | Crashed

definition eta_render :: "eta_state \<Rightarrow> eta_screen" where
  "eta_render s =
     (if truthy (error s) then ErrorNotice (error s)
      else if \<not> truthy (etaData s) then Loading
      else if dashboardThrows (etaData s) then Crashed
      else Dashboard (etaData s))"

definition eta_rerender :: "eta_state \<Rightarrow> eta_state" where
  "eta_rerender s =
     (if etaPage s = Mounted \<and> eta_render s = Crashed
      then s\<lparr>etaPage := Gone, etaInterval := False\<rparr> else s)"

text \<open>
  The effect of lines 26 to 30: \<^verbatim>\<open>fetchETA()\<close>, then \<^verbatim>\<open>setInterval\<close>; its cleanup is
  \<^verbatim>\<open>clearInterval\<close>. A change of the bus while the component is mounted runs the
  cleanup and then the effect again, so an interval is registered afterwards; the unmount
  runs the cleanup alone. A request that settles when the component is gone runs its chain,
  and React ignores the setters.
\<close>

fun eta_step :: "eta_event \<Rightarrow> eta_state \<Rightarrow> eta_state" where
  "eta_step (EtaMount b) s =
     (if etaPage s = NotMounted
      then (fetchETA_request (s\<lparr>busId := b, etaPage := Mounted\<rparr>))\<lparr>etaInterval := True\<rparr>
      else s)"
| "eta_step (BusIdChanges b) s =
     (if etaPage s = Mounted \<and> b \<noteq> busId s
      then (fetchETA_request (s\<lparr>busId := b\<rparr>))\<lparr>etaInterval := True\<rparr>
      else s)"
| "eta_step EtaTick s = (if etaInterval s then fetchETA_request s else s)"
| "eta_step (Settled k r) s =
     (if k \<in> fst ` set (etaPending s)
      then (if etaPage s = Mounted
            then eta_rerender
                   (fetchETA_settled r (s\<lparr>etaPending := filter (\<lambda>q. fst q \<noteq> k) (etaPending s)\<rparr>))
            else s\<lparr>etaPending := filter (\<lambda>q. fst q \<noteq> k) (etaPending s)\<rparr>)
      else s)"
| "eta_step EtaUnmount s = s\<lparr>etaPage := Gone, etaInterval := False\<rparr>"

definition eta_run :: "eta_event list \<Rightarrow> eta_state \<Rightarrow> eta_state" where
  "eta_run evs s = foldl (\<lambda>st e. eta_step e st) s evs"

section \<open>Properties\<close>

subsection \<open>The centre of the map\<close>

text \<open>
  Claim C8. The centre computed from an empty polyline is the fixed anchor
  (12.8251353, 77.5148474); the centre computed from a polyline with at least one point is
  the first point of the polyline, whatever the other points are.
\<close>

theorem center_first_or_default:
  "center [] = (Fin 12.8251353, Fin 77.5148474) \<and> center (p # ps) = (lat p, lng p)"
  by (simp add: center_def)

theorem center_first_or_default_witness:
  "center [] = (Fin 12.8251353, Fin 77.5148474) \<and>
   center [\<lparr>lat = Fin 12, lng = Fin 77\<rparr>, \<lparr>lat = Fin 13, lng = Fin 78\<rparr>] = (Fin 12, Fin 77)"
  using center_first_or_default [of "\<lparr>lat = Fin 12, lng = Fin 77\<rparr>" "[\<lparr>lat = Fin 13, lng = Fin 78\<rparr>]"]
  by simp

subsection \<open>Blank strings\<close>

lemma trim_all_space: "list_all isSpace s \<Longrightarrow> trim s = []"
proof -
  assume "list_all isSpace s"
  then have blank: "dropWhile isSpace s = []"
    by (simp add: list_all_iff)
  show "trim s = []"
    unfolding trim_def blank by simp
qed

lemma trim_Nil: "trim [] = []"
  by (simp add: trim_def)

lemma stringToNumber_trim_blank: "list_all isSpace s \<Longrightarrow> stringToNumber (trim s) = Fin 0"
  by (simp add: trim_all_space stringToNumber_def trim_Nil)

lemma swapAndCheck_zero: "swapAndCheck (Fin 0) (Fin 0) = Some \<lparr>lat = Fin 0, lng = Fin 0\<rparr>"
  by (simp add: swapAndCheck_def js_gt_def js_le_def Let_def)

text \<open>
  Claim C10. A coordinate object whose latitude and longitude resolve to strings made of
  white space only (the empty string included) is not rejected: trimming leaves the empty
  string, which converts to 0, and the point (0, 0) passes the NaN test and the bounds.
\<close>

theorem normalizePoint_blank_strings:
  assumes "rawLat (JObj kvs) = JStr s" and "rawLng (JObj kvs) = JStr t"
    and "list_all isSpace s" and "list_all isSpace t"
  shows "normalizePoint (JObj kvs) = Inr (Some \<lparr>lat = Fin 0, lng = Fin 0\<rparr>)"
  using assms
  by (simp add: normalizePoint_def resolvePair_def coerceAndCheck_def trimIfString_def
      stringToNumber_trim_blank swapAndCheck_zero)

theorem normalizePoint_blank_strings_witness:
  "normalizePoint (JObj [(''lat'', JStr ''''), (''lng'', JStr '' '')]) =
     Inr (Some \<lparr>lat = Fin 0, lng = Fin 0\<rparr>)"
  using normalizePoint_blank_strings [of "[(''lat'', JStr ''''), (''lng'', JStr '' '')]" "''''" "'' ''"]
  by (simp add: rawLat_def rawLng_def nullish_def isSpace_def)

subsection \<open>The swap of transposed fields\<close>

lemma swapAndCheck_transposed:
  assumes "js_gt (js_abs x) (Fin 90)" and "js_le (js_abs y) (Fin 90)"
  shows "swapAndCheck x y =
           (if js_le (js_abs y) (Fin 90) \<and> js_le (js_abs x) (Fin 180)
            then Some \<lparr>lat = y, lng = x\<rparr> else None)"
  using assms
  by (cases x; cases y) (simp_all add: swapAndCheck_def js_gt_def js_le_def Let_def)

text \<open>
  Claim C2. Let the resolved latitude and longitude of a coordinate object convert to the
  numbers \<open>x\<close> and \<open>y\<close>, neither NaN, with \<open>|x| > 90\<close> and \<open>|y| \<le> 90\<close>. Then the two are
  exchanged, once: the result is the point with latitude \<open>y\<close> and longitude \<open>x\<close> when that
  pair is within the bounds (\<open>|y| \<le> 90\<close> and \<open>|x| \<le> 180\<close>), and null otherwise.
\<close>

theorem normalizePoint_swaps_once:
  assumes "truthy raw" and "typeof raw = ''object''"
    and "resolvePair raw = Inr (a, b)"
    and "toNumber (trimIfString a) = Inr x" and "toNumber (trimIfString b) = Inr y"
    and "\<not> isNaN x" and "\<not> isNaN y"
    and "js_gt (js_abs x) (Fin 90)" and "js_le (js_abs y) (Fin 90)"
  shows "normalizePoint raw =
           Inr (if js_le (js_abs y) (Fin 90) \<and> js_le (js_abs x) (Fin 180)
                then Some \<lparr>lat = y, lng = x\<rparr> else None)"
proof -
  have "normalizePoint raw = coerceAndCheck a b"
    using assms(1-3) by (simp add: normalizePoint_def)
  also have "\<dots> = Inr (swapAndCheck x y)"
    using assms(4,5) by (simp add: coerceAndCheck_def)
  finally show ?thesis
    using swapAndCheck_transposed [OF assms(8,9)] by simp
qed

theorem normalizePoint_swaps_once_witness:
  "normalizePoint (JObj [(''lat'', JNum (Fin 100)), (''lng'', JStr ''50'')]) =
     Inr (Some \<lparr>lat = Fin 50, lng = Fin 100\<rparr>) \<and>
   normalizePoint (JObj [(''lat'', JNum (Fin 200)), (''lng'', JNum (Fin 50))]) = Inr None"
proof -
  have one: "normalizePoint (JObj [(''lat'', JNum (Fin 100)), (''lng'', JStr ''50'')]) =
     Inr (Some \<lparr>lat = Fin 50, lng = Fin 100\<rparr>)"
    using normalizePoint_swaps_once
      [of "JObj [(''lat'', JNum (Fin 100)), (''lng'', JStr ''50'')]"
          "JNum (Fin 100)" "JStr ''50''" "Fin 100" "Fin 50"]
    by (simp add: resolvePair_def rawLat_def rawLng_def nullish_def trimIfString_def
        js_gt_def js_le_def)
       code_simp
  have two: "normalizePoint (JObj [(''lat'', JNum (Fin 200)), (''lng'', JNum (Fin 50))]) = Inr None"
    using normalizePoint_swaps_once
      [of "JObj [(''lat'', JNum (Fin 200)), (''lng'', JNum (Fin 50))]"
          "JNum (Fin 200)" "JNum (Fin 50)" "Fin 200" "Fin 50"]
    by (simp add: resolvePair_def rawLat_def rawLng_def nullish_def trimIfString_def
        js_gt_def js_le_def)
  show ?thesis using one two by simp
qed

subsection \<open>A point nested in the longitude field\<close>

text \<open>
  Claim C9, as the source has it. The fields of an object found under the longitude key
  are used only when no latitude was found: then the conversion, the swap and the bounds
  check run on the \<^verbatim>\<open>lat\<close> and \<^verbatim>\<open>lng\<close> properties of that object (these two keys
  and no alias). When a latitude was found, the longitude is converted as it is, and an
  object there never yields a point.
\<close>

theorem nested_longitude_without_latitude:
  assumes "truthy raw" and "typeof raw = ''object''"
  shows "(rawLat raw = JUndefined \<and> rawLng raw = JObj kvs \<longrightarrow>
            normalizePoint raw =
              coerceAndCheck (getProp (JObj kvs) ''lat'') (getProp (JObj kvs) ''lng'')) \<and>
         (rawLat raw \<noteq> JUndefined \<longrightarrow>
            normalizePoint raw = coerceAndCheck (rawLat raw) (rawLng raw)) \<and>
         (rawLat raw \<noteq> JUndefined \<and> rawLng raw = JObj kvs \<longrightarrow>
            normalizePoint raw \<noteq> Inr (Some p))"
  using assms
  by (auto simp add: normalizePoint_def resolvePair_def coerceAndCheck_def trimIfString_def
      swapAndCheck_def split: sum.splits)

theorem nested_longitude_without_latitude_witness:
  "normalizePoint (JObj [(''lng'', JObj [(''lat'', JStr ''12.5''), (''lng'', JNum (Fin 77))])]) =
     Inr (Some \<lparr>lat = Fin 12.5, lng = Fin 77\<rparr>)"
  using nested_longitude_without_latitude
    [of "JObj [(''lng'', JObj [(''lat'', JStr ''12.5''), (''lng'', JNum (Fin 77))])]"
        "[(''lat'', JStr ''12.5''), (''lng'', JNum (Fin 77))]"]
  by (simp add: rawLat_def rawLng_def nullish_def) code_simp

text \<open>
  The claim as written fails where a latitude is present: the object under the longitude
  key holds the valid point (1, 2), and the record is rejected.
\<close>

theorem nested_longitude_counterexample:
  "rawLng (JObj [(''lat'', JNum (Fin 5)),
                 (''lng'', JObj [(''lat'', JNum (Fin 1)), (''lng'', JNum (Fin 2))])]) =
     JObj [(''lat'', JNum (Fin 1)), (''lng'', JNum (Fin 2))] \<and>
   normalizePoint (JObj [(''lat'', JNum (Fin 1)), (''lng'', JNum (Fin 2))]) =
     Inr (Some \<lparr>lat = Fin 1, lng = Fin 2\<rparr>) \<and>
   normalizePoint (JObj [(''lat'', JNum (Fin 5)),
                         (''lng'', JObj [(''lat'', JNum (Fin 1)), (''lng'', JNum (Fin 2))])]) =
     Inr None"
  by (simp add: normalizePoint_def resolvePair_def rawLat_def rawLng_def nullish_def
      coerceAndCheck_def trimIfString_def swapAndCheck_def js_gt_def js_le_def Let_def)

subsection \<open>Bus markers\<close>

lemma ensureNumbers_converted:
  assumes "converts b (x, y)"
  shows "ensureNumbers b = Inr (if isNaN x \<or> isNaN y then None else Some (spreadCoords b x y))"
  using assms by (simp add: ensureNumbers_def converts_def)

lemma kept_records:
  assumes "list_all2 converts bs xys"
  shows "\<exists>rs. mapThrowing ensureNumbers bs = Inr rs \<and>
           filterBoolean rs =
             map (\<lambda>(b, x, y). spreadCoords b x y)
               (filter (\<lambda>(b, x, y). \<not> isNaN x \<and> \<not> isNaN y) (zip bs xys))"
  using assms
proof (induction rule: list_all2_induct)
  case Nil
  then show ?case by simp
next
  case (Cons b bs xy xys)
  then obtain rs where rs: "mapThrowing ensureNumbers bs = Inr rs"
    and kept: "filterBoolean rs =
             map (\<lambda>(b, x, y). spreadCoords b x y)
               (filter (\<lambda>(b, x, y). \<not> isNaN x \<and> \<not> isNaN y) (zip bs xys))"
    by blast
  obtain x y where xy: "xy = (x, y)" by (cases xy)
  have e: "ensureNumbers b = Inr (if isNaN x \<or> isNaN y then None else Some (spreadCoords b x y))"
    using Cons.hyps(1) xy by (simp add: ensureNumbers_converted)
  show ?case
    using rs kept e xy by simp
qed

lemma icon_spreadCoords:
  "icon (toMarker (spreadCoords b x y)) =
     (if getProp b ''bus_id'' = JStr ''V2BMTC'' then HIGHLIGHT_ICON else DEFAULT_ICON)"
  by (cases b) (simp_all add: toMarker_def spreadCoords_def)

lemma plainMarkers_icons:
  "mapThrowing (\<lambda>bus. if bus = JUndefined \<or> bus = JNull then Inl TypeError
                       else Inr (toMarker bus)) bs = Inr ms \<Longrightarrow>
   map icon ms =
     map (\<lambda>b. if getProp b ''bus_id'' = JStr ''V2BMTC'' then HIGHLIGHT_ICON else DEFAULT_ICON) bs"
  by (induction bs arbitrary: ms) (auto simp add: toMarker_def split: if_splits sum.splits)

text \<open>
  Claim C7, as the source has it. Take a list of records none of which makes the
  projection throw, with the numbers their latitude and longitude convert to. The markers
  are those of the records whose two numbers are both different from NaN, in the order of
  the list: a record with a NaN coordinate produces no marker, and a record with an
  infinite coordinate is kept like any other.
\<close>

theorem busMarkers_keeps_non_NaN:
  assumes "list_all2 converts bs xys"
  shows "busMarkers (JArr bs) =
           Inr (map (\<lambda>(b, x, y). toMarker (spreadCoords b x y))
                  (filter (\<lambda>(b, x, y). \<not> isNaN x \<and> \<not> isNaN y) (zip bs xys)))"
proof -
  obtain rs where rs: "mapThrowing ensureNumbers bs = Inr rs"
    and kept: "filterBoolean rs =
             map (\<lambda>(b, x, y). spreadCoords b x y)
               (filter (\<lambda>(b, x, y). \<not> isNaN x \<and> \<not> isNaN y) (zip bs xys))"
    using kept_records [OF assms] by blast
  show ?thesis
    by (simp add: busMarkers_def rs kept split_def comp_def)
qed

theorem busMarkers_keeps_non_NaN_witness:
  "busMarkers (JArr
     [JObj [(''bus_id'', JStr ''V2BMTC''), (''latitude'', JStr ''12.1''), (''longitude'', JStr ''77.2'')],
      JObj [(''bus_id'', JStr ''X''), (''latitude'', JStr ''bad''), (''longitude'', JStr ''1'')],
      JObj [(''bus_id'', JStr ''Y''), (''latitude'', JNum PInf), (''longitude'', JNull)]]) =
   Inr [\<lparr>key = JStr ''V2BMTC'', position = (JNum (Fin 12.1), JNum (Fin 77.2)), icon = HIGHLIGHT_ICON\<rparr>,
        \<lparr>key = JStr ''Y'', position = (JNum PInf, JNum (Fin 0)), icon = DEFAULT_ICON\<rparr>]"
proof -
  have c: "list_all2 converts
     [JObj [(''bus_id'', JStr ''V2BMTC''), (''latitude'', JStr ''12.1''), (''longitude'', JStr ''77.2'')],
      JObj [(''bus_id'', JStr ''X''), (''latitude'', JStr ''bad''), (''longitude'', JStr ''1'')],
      JObj [(''bus_id'', JStr ''Y''), (''latitude'', JNum PInf), (''longitude'', JNull)]]
     [(Fin 12.1, Fin 77.2), (NaN, Fin 1), (PInf, Fin 0)]"
    by (simp add: converts_def) code_simp
  show ?thesis
    using busMarkers_keeps_non_NaN [OF c]
    by (simp add: toMarker_def spreadCoords_def)
qed

text \<open>
  The claim as written fails on an infinite coordinate: the string \<^verbatim>\<open>Infinity\<close> converts to
  an infinite number, which is not NaN, and the record gets its marker.
\<close>

theorem infinite_coordinate_counterexample:
  "toNumber (JStr ''Infinity'') = Inr PInf \<and>
   busMarkers (JArr [JObj [(''bus_id'', JStr ''X''), (''latitude'', JStr ''Infinity''),
                           (''longitude'', JNum (Fin 1))]]) =
     Inr [\<lparr>key = JStr ''X'', position = (JNum PInf, JNum (Fin 1)), icon = DEFAULT_ICON\<rparr>]"
  by code_simp

text \<open>
  Claim C6, as the source has it. Each rendered record gets the highlight icon when its
  \<^verbatim>\<open>bus_id\<close> is the string \<^verbatim>\<open>V2BMTC\<close> and the default icon otherwise, in the filtering
  component and in the plain one. Records are not merged by \<^verbatim>\<open>bus_id\<close>, so the number
  of highlighted markers is the number of kept records that carry the identifier: one
  when exactly one does.
\<close>

theorem highlight_follows_bus_id:
  assumes "list_all2 converts bs xys"
  shows "(\<exists>ms. busMarkers (JArr bs) = Inr ms \<and>
           map icon ms =
             map (\<lambda>(b, x, y). if getProp b ''bus_id'' = JStr ''V2BMTC''
                               then HIGHLIGHT_ICON else DEFAULT_ICON)
               (filter (\<lambda>(b, x, y). \<not> isNaN x \<and> \<not> isNaN y) (zip bs xys)) \<and>
           length (filter (\<lambda>m. icon m = HIGHLIGHT_ICON) ms) =
             length (filter (\<lambda>(b, x, y). \<not> isNaN x \<and> \<not> isNaN y \<and>
                                getProp b ''bus_id'' = JStr ''V2BMTC'') (zip bs xys))) \<and>
         (plainMarkers (JArr bs) = Inr ms' \<longrightarrow>
           map icon ms' =
             map (\<lambda>b. if getProp b ''bus_id'' = JStr ''V2BMTC''
                       then HIGHLIGHT_ICON else DEFAULT_ICON) bs)"
proof -
  obtain rs where rs: "mapThrowing ensureNumbers bs = Inr rs"
    and kept: "filterBoolean rs =
             map (\<lambda>(b, x, y). spreadCoords b x y)
               (filter (\<lambda>(b, x, y). \<not> isNaN x \<and> \<not> isNaN y) (zip bs xys))"
    using kept_records [OF assms] by blast
  let ?kept = "filter (\<lambda>(b, x, y). \<not> isNaN x \<and> \<not> isNaN y) (zip bs xys)"
  let ?ms = "map (\<lambda>(b, x, y). toMarker (spreadCoords b x y)) ?kept"
  have ms: "busMarkers (JArr bs) = Inr ?ms"
    by (simp add: busMarkers_def rs kept split_def comp_def)
  have icons: "map icon ?ms =
      map (\<lambda>(b, x, y). if getProp b ''bus_id'' = JStr ''V2BMTC''
                        then HIGHLIGHT_ICON else DEFAULT_ICON) ?kept"
    by (simp add: split_def comp_def icon_spreadCoords)
  have count: "length (filter (\<lambda>m. icon m = HIGHLIGHT_ICON) ?ms) =
      length (filter (\<lambda>(b, x, y). \<not> isNaN x \<and> \<not> isNaN y \<and>
                         getProp b ''bus_id'' = JStr ''V2BMTC'') (zip bs xys))"
    by (auto simp add: filter_map comp_def split_def icon_spreadCoords
        intro!: arg_cong [where f = length] filter_cong)
  have plain: "plainMarkers (JArr bs) = Inr ms' \<longrightarrow>
           map icon ms' =
             map (\<lambda>b. if getProp b ''bus_id'' = JStr ''V2BMTC''
                       then HIGHLIGHT_ICON else DEFAULT_ICON) bs"
    by (simp add: plainMarkers_def plainMarkers_icons)
  show ?thesis
    using ms icons count plain by blast
qed

theorem highlight_follows_bus_id_witness:
  "\<exists>ms. busMarkers (JArr
     [JObj [(''bus_id'', JStr ''V2BMTC''), (''latitude'', JStr ''12.1''), (''longitude'', JStr ''77.2'')],
      JObj [(''bus_id'', JStr ''X''), (''latitude'', JStr ''bad''), (''longitude'', JStr ''1'')]]) =
       Inr ms \<and>
     map icon ms = [HIGHLIGHT_ICON] \<and>
     length (filter (\<lambda>m. icon m = HIGHLIGHT_ICON) ms) = 1"
proof -
  have c: "list_all2 converts
     [JObj [(''bus_id'', JStr ''V2BMTC''), (''latitude'', JStr ''12.1''), (''longitude'', JStr ''77.2'')],
      JObj [(''bus_id'', JStr ''X''), (''latitude'', JStr ''bad''), (''longitude'', JStr ''1'')]]
     [(Fin 12.1, Fin 77.2), (NaN, Fin 1)]"
    by (simp add: converts_def) code_simp
  show ?thesis
    using highlight_follows_bus_id [OF c, of "[]"] by simp
qed

text \<open>
  The claim as written fails on a payload that holds the identifier twice: both records
  are rendered and both markers are highlighted.
\<close>

theorem duplicate_id_counterexample:
  "busMarkers (JArr
     [JObj [(''bus_id'', JStr ''V2BMTC''), (''latitude'', JNum (Fin 12.1)), (''longitude'', JNum (Fin 77.2))],
      JObj [(''bus_id'', JStr ''V2BMTC''), (''latitude'', JNum (Fin 12.3)), (''longitude'', JNum (Fin 77.4))]]) =
   Inr [\<lparr>key = JStr ''V2BMTC'', position = (JNum (Fin 12.1), JNum (Fin 77.2)), icon = HIGHLIGHT_ICON\<rparr>,
        \<lparr>key = JStr ''V2BMTC'', position = (JNum (Fin 12.3), JNum (Fin 77.4)), icon = HIGHLIGHT_ICON\<rparr>]"
  by code_simp

subsection \<open>The polyline\<close>

lemma mapThrowing_all:
  "list_all2 (\<lambda>x y. f x = Inr y) xs ys \<Longrightarrow> mapThrowing f xs = Inr ys"
  by (induction rule: list_all2_induct) simp_all

lemma filterIndexed_nths:
  "filterIndexed f arr = nths arr {i. f (arr ! i) i arr}"
proof -
  have "filter (\<lambda>(p, i). f p i arr) (zip arr [0..<length arr]) =
        filter (\<lambda>q. snd q \<in> {i. f (arr ! i) i arr}) (zip arr [0..<length arr])"
    by (rule filter_cong) (auto simp add: in_set_zip)
  then show ?thesis
    by (simp add: filterIndexed_def nths_def)
qed

lemma keepPoint_positions:
  "{i. keepPoint (arr ! i) i arr} = {i. i = 0 \<or> \<not> withinEps (arr ! (i - 1)) (arr ! i)}"
  by (auto simp add: keepPoint_def)

text \<open>
  Claim C1, as the source has it. Let every raw coordinate normalize without throwing, to
  a point or to null, and let \<open>arr\<close> be the points in order, nulls left out. The polyline is
  \<open>arr\<close> restricted to the positions \<open>i\<close> that are 0 or whose point is not within epsilon,
  in both coordinates, of the point at position \<open>i - 1\<close> of \<open>arr\<close>. The point compared
  with is the one before in the normalized sequence, whether it was kept or dropped, and
  not the last kept one. So the first point is kept, the order is the input's, and a
  point equal to an earlier one that is not its neighbour stays.
\<close>

theorem sanitize_compares_with_previous_point:
  assumes "list_all2 (\<lambda>c p. normalizePoint c = Inr p) cs ps"
  shows "sanitize cs =
           Inr (nths (filterBoolean ps)
                  {i. i = 0 \<or> \<not> withinEps (filterBoolean ps ! (i - 1)) (filterBoolean ps ! i)})"
  using mapThrowing_all [OF assms]
  by (simp add: sanitize_def filterIndexed_nths keepPoint_positions)

theorem sanitize_compares_with_previous_point_witness:
  "sanitize
     [JObj [(''lat'', JNum (Fin 1)), (''lng'', JNum (Fin 1))],
      JObj [(''lat'', JNum (Fin 1.0000001)), (''lng'', JNum (Fin 1.0000001))],
      JStr ''junk'',
      JObj [(''lat'', JNum (Fin 2)), (''lng'', JNum (Fin 2))],
      JObj [(''lat'', JNum (Fin 1)), (''lng'', JNum (Fin 1))]] =
   Inr [\<lparr>lat = Fin 1, lng = Fin 1\<rparr>, \<lparr>lat = Fin 2, lng = Fin 2\<rparr>, \<lparr>lat = Fin 1, lng = Fin 1\<rparr>]"
proof -
  have n: "list_all2 (\<lambda>c p. normalizePoint c = Inr p)
    [JObj [(''lat'', JNum (Fin 1)), (''lng'', JNum (Fin 1))],
     JObj [(''lat'', JNum (Fin 1.0000001)), (''lng'', JNum (Fin 1.0000001))],
     JStr ''junk'',
     JObj [(''lat'', JNum (Fin 2)), (''lng'', JNum (Fin 2))],
     JObj [(''lat'', JNum (Fin 1)), (''lng'', JNum (Fin 1))]]
    [Some \<lparr>lat = Fin 1, lng = Fin 1\<rparr>, Some \<lparr>lat = Fin 1.0000001, lng = Fin 1.0000001\<rparr>, None,
     Some \<lparr>lat = Fin 2, lng = Fin 2\<rparr>, Some \<lparr>lat = Fin 1, lng = Fin 1\<rparr>]"
    by simp code_simp
  show ?thesis
    using sanitize_compares_with_previous_point [OF n]
    by (simp add: nths_Cons withinEps_def)
qed

text \<open>
  The claim as written fails on three points close to each other: the second is within
  epsilon of the first and is dropped; the third is compared with the dropped second,
  from which it is 1.4e-6 away, and is kept, although it is within epsilon of the first,
  the last kept point. The output holds two consecutive points within epsilon.
\<close>

theorem consecutive_within_epsilon_counterexample:
  "sanitize
     [JObj [(''lat'', JNum (Fin 0)), (''lng'', JNum (Fin 0))],
      JObj [(''lat'', JNum (Fin 0.0000009)), (''lng'', JNum (Fin 0))],
      JObj [(''lat'', JNum (Fin (- 0.0000005))), (''lng'', JNum (Fin 0))]] =
     Inr [\<lparr>lat = Fin 0, lng = Fin 0\<rparr>, \<lparr>lat = Fin (- 0.0000005), lng = Fin 0\<rparr>] \<and>
   withinEps \<lparr>lat = Fin 0, lng = Fin 0\<rparr> \<lparr>lat = Fin (- 0.0000005), lng = Fin 0\<rparr>"
  by code_simp

subsection \<open>The refresh loops\<close>

lemma live_run_snoc: "live_run throws (evs @ [e]) s = live_step throws e (live_run throws evs s)"
  by (simp add: live_run_def)

lemma eta_run_snoc: "eta_run (evs @ [e]) s = eta_step e (eta_run evs s)"
  by (simp add: eta_run_def)


text \<open>
  Claim C3, as the source has it. No request carries a sequence number and no completion
  compares one. After any history of an instance of the live tracking page that leaves it
  mounted, when a request in flight resolves with a payload that renders, the displayed
  payload becomes the data of that request, whether or not a request issued later has
  already completed; the same holds for the ETA view. The display reflects the request
  that completed last.
\<close>

theorem completion_order_decides_display:
  "(page (live_run throws evs live_init) = Mounted \<and>
    k \<in> set (pending (live_run throws evs live_init)) \<and> \<not> throws d \<longrightarrow>
      buses (live_run throws (evs @ [Resolved k d]) live_init) = d \<and>
      page (live_run throws (evs @ [Resolved k d]) live_init) = Mounted) \<and>
   (etaPage (eta_run tevs eta_init) = Mounted \<and>
    j \<in> fst ` set (etaPending (eta_run tevs eta_init)) \<and> \<not> (truthy v \<and> dashboardThrows v) \<longrightarrow>
      etaData (eta_run (tevs @ [Settled j (Response st (Json v))]) eta_init) = v \<and>
      etaPage (eta_run (tevs @ [Settled j (Response st (Json v))]) eta_init) = Mounted \<and>
      eta_render (eta_run (tevs @ [Settled j (Response st (Json v))]) eta_init) =
        (if truthy v then Dashboard v else Loading))"
  by (auto simp add: live_run_snoc eta_run_snoc fetchBuses_resolved_def setBuses_def
      live_rerender_def fetchETA_settled_def eta_rerender_def eta_render_def)

theorem completion_order_decides_display_witness:
  "buses (live_run (\<lambda>d. \<not> isArray d)
            ([Mount, Tick,
              Resolved 1 (JArr [JObj [(''id'', JStr ''b1''), (''bus_id'', JStr ''V2BMTC''),
                                      (''latitude'', JNum (Fin 12.9)), (''longitude'', JNum (Fin 77.6))]])] @
             [Resolved 0 (JArr [JObj [(''id'', JStr ''b1''), (''bus_id'', JStr ''V2BMTC''),
                                      (''latitude'', JNum (Fin 12.9)), (''longitude'', JNum (Fin 77.5))]])])
            live_init) =
     JArr [JObj [(''id'', JStr ''b1''), (''bus_id'', JStr ''V2BMTC''),
                 (''latitude'', JNum (Fin 12.9)), (''longitude'', JNum (Fin 77.5))]] \<and>
   eta_render (eta_run
            ([EtaMount ''KA01'', EtaTick,
              Settled 1 (Response 200 (Json (JObj [(''current_speed_kmph'', JNum (Fin 30)), (''eta'', JArr [])])))] @
             [Settled 0 (Response 200 (Json (JObj [(''current_speed_kmph'', JNum (Fin 20)), (''eta'', JArr [])])))])
            eta_init) =
     Dashboard (JObj [(''current_speed_kmph'', JNum (Fin 20)), (''eta'', JArr [])])"
  using completion_order_decides_display
    [of "\<lambda>d. \<not> isArray d"
        "[Mount, Tick,
          Resolved 1 (JArr [JObj [(''id'', JStr ''b1''), (''bus_id'', JStr ''V2BMTC''),
                                  (''latitude'', JNum (Fin 12.9)), (''longitude'', JNum (Fin 77.6))]])]"
        0
        "JArr [JObj [(''id'', JStr ''b1''), (''bus_id'', JStr ''V2BMTC''),
                     (''latitude'', JNum (Fin 12.9)), (''longitude'', JNum (Fin 77.5))]]"
        "[EtaMount ''KA01'', EtaTick,
          Settled 1 (Response 200 (Json (JObj [(''current_speed_kmph'', JNum (Fin 30)), (''eta'', JArr [])])))]"
        0
        "JObj [(''current_speed_kmph'', JNum (Fin 20)), (''eta'', JArr [])]"
        200]
  by (simp add: live_run_def live_init_def fetchBuses_request_def fetchBuses_resolved_def
      setBuses_def live_rerender_def eta_run_def eta_init_def fetchETA_request_def
      fetchETA_settled_def eta_rerender_def eta_render_def dashboardThrows_def)

text \<open>
  The claim as written fails on two overlapping requests: request 0 is issued on mount and
  request 1 by the first tick; request 1 resolves first and is displayed; request 0
  resolves afterwards and its older payload replaces the newer one.
\<close>

theorem stale_result_counterexample:
  "pending (live_run (\<lambda>d. \<not> isArray d) [Mount, Tick] live_init) = [0, 1] \<and>
   buses (live_run (\<lambda>d. \<not> isArray d)
            [Mount, Tick,
             Resolved 1 (JArr [JObj [(''id'', JStr ''b1''), (''bus_id'', JStr ''V2BMTC''),
                                     (''latitude'', JNum (Fin 12.9)), (''longitude'', JNum (Fin 77.6))]])]
            live_init) =
     JArr [JObj [(''id'', JStr ''b1''), (''bus_id'', JStr ''V2BMTC''),
                 (''latitude'', JNum (Fin 12.9)), (''longitude'', JNum (Fin 77.6))]] \<and>
   buses (live_run (\<lambda>d. \<not> isArray d)
            [Mount, Tick,
             Resolved 1 (JArr [JObj [(''id'', JStr ''b1''), (''bus_id'', JStr ''V2BMTC''),
                                     (''latitude'', JNum (Fin 12.9)), (''longitude'', JNum (Fin 77.6))]]),
             Resolved 0 (JArr [JObj [(''id'', JStr ''b1''), (''bus_id'', JStr ''V2BMTC''),
                                     (''latitude'', JNum (Fin 12.9)), (''longitude'', JNum (Fin 77.5))]])]
            live_init) =
     JArr [JObj [(''id'', JStr ''b1''), (''bus_id'', JStr ''V2BMTC''),
                 (''latitude'', JNum (Fin 12.9)), (''longitude'', JNum (Fin 77.5))]] \<and>
   page (live_run (\<lambda>d. \<not> isArray d)
            [Mount, Tick,
             Resolved 1 (JArr [JObj [(''id'', JStr ''b1''), (''bus_id'', JStr ''V2BMTC''),
                                     (''latitude'', JNum (Fin 12.9)), (''longitude'', JNum (Fin 77.6))]]),
             Resolved 0 (JArr [JObj [(''id'', JStr ''b1''), (''bus_id'', JStr ''V2BMTC''),
                                     (''latitude'', JNum (Fin 12.9)), (''longitude'', JNum (Fin 77.5))]])]
            live_init) = Mounted"
  by (simp add: live_run_def live_init_def fetchBuses_request_def fetchBuses_resolved_def
      setBuses_def live_rerender_def)




text \<open>
  Claim C5, as the source has it. The cleanup clears the interval and does nothing else.
  After an unmount no tick issues a request; a request that was in flight still runs its
  continuation when it settles and calls the setter, which React ignores for a component
  that is gone, so nothing is written. When the bus of the ETA view changes, the cleanup
  runs and the effect starts over while the component stays mounted: the request issued
  for the previous bus is not guarded either, and when it settles its payload is written
  to the state that now belongs to the new bus.
\<close>

theorem cleanup_stops_timer_only:
  "live_step throws Tick (live_step throws Unmount s) = live_step throws Unmount s \<and>
   eta_step EtaTick (eta_step EtaUnmount t) = eta_step EtaUnmount t \<and>
   (k \<in> set (pending s) \<longrightarrow>
      setBusesCalls (live_step throws (Resolved k d) (live_step throws Unmount s)) =
        setBusesCalls s @ [d] \<and>
      buses (live_step throws (Resolved k d) (live_step throws Unmount s)) = buses s) \<and>
   etaData (eta_step (Settled j r) (eta_step EtaUnmount t)) = etaData t \<and>
   (etaPage t = Mounted \<and> b \<noteq> busId t \<and> j \<in> fst ` set (etaPending t) \<and>
    \<not> (truthy v \<and> dashboardThrows v) \<longrightarrow>
      etaData (eta_step (Settled j (Response st (Json v))) (eta_step (BusIdChanges b) t)) = v \<and>
      etaPage (eta_step (Settled j (Response st (Json v))) (eta_step (BusIdChanges b) t)) = Mounted \<and>
      busId (eta_step (Settled j (Response st (Json v))) (eta_step (BusIdChanges b) t)) = b)"
  by (auto simp add: fetchBuses_resolved_def setBuses_def live_rerender_def fetchETA_settled_def
      fetchETA_request_def eta_rerender_def eta_render_def)

theorem cleanup_stops_timer_only_witness:
  "live_run (\<lambda>d. \<not> isArray d) [Mount, Unmount, Tick] live_init =
     live_run (\<lambda>d. \<not> isArray d) [Mount, Unmount] live_init \<and>
   setBusesCalls (live_run (\<lambda>d. \<not> isArray d) [Mount, Unmount, Resolved 0 (JArr [])] live_init) =
     [JArr []] \<and>
   etaData (eta_run
      [EtaMount ''KA01'', BusIdChanges ''KA02'',
       Settled 0 (Response 200 (Json (JObj [(''current_speed_kmph'', JNum (Fin 30)), (''eta'', JArr [])])))]
      eta_init) = JObj [(''current_speed_kmph'', JNum (Fin 30)), (''eta'', JArr [])]"
  using cleanup_stops_timer_only
    [of "\<lambda>d. \<not> isArray d" "live_run (\<lambda>d. \<not> isArray d) [Mount] live_init"
        "eta_run [EtaMount ''KA01''] eta_init" 0 "JArr []" 0 NetworkError "''KA02''"
        "JObj [(''current_speed_kmph'', JNum (Fin 30)), (''eta'', JArr [])]" 200]
  by (simp add: live_run_def live_init_def fetchBuses_request_def fetchBuses_resolved_def
      setBuses_def live_rerender_def eta_run_def eta_init_def fetchETA_request_def
      fetchETA_settled_def eta_rerender_def eta_render_def dashboardThrows_def)

text \<open>
  The claim as written fails when the bus of the ETA view changes while a request is in
  flight: the cleanup runs, the effect starts over for the new bus, and the request
  issued for the old bus then settles and writes its payload to the state, which is shown
  under the new bus.
\<close>

theorem late_result_after_cleanup_counterexample:
  "etaPending (eta_run [EtaMount ''KA01'', BusIdChanges ''KA02''] eta_init) =
     [(0, ''KA01''), (1, ''KA02'')] \<and>
   etaData (eta_run [EtaMount ''KA01'', BusIdChanges ''KA02''] eta_init) = JNull \<and>
   etaData (eta_run
      [EtaMount ''KA01'', BusIdChanges ''KA02'',
       Settled 0 (Response 200 (Json (JObj [(''current_speed_kmph'', JNum (Fin 30)), (''eta'', JArr [])])))]
      eta_init) = JObj [(''current_speed_kmph'', JNum (Fin 30)), (''eta'', JArr [])] \<and>
   eta_render (eta_run
      [EtaMount ''KA01'', BusIdChanges ''KA02'',
       Settled 0 (Response 200 (Json (JObj [(''current_speed_kmph'', JNum (Fin 30)), (''eta'', JArr [])])))]
      eta_init) = Dashboard (JObj [(''current_speed_kmph'', JNum (Fin 30)), (''eta'', JArr [])]) \<and>
   busId (eta_run
      [EtaMount ''KA01'', BusIdChanges ''KA02'',
       Settled 0 (Response 200 (Json (JObj [(''current_speed_kmph'', JNum (Fin 30)), (''eta'', JArr [])])))]
      eta_init) = ''KA02''"
  by (simp add: eta_run_def eta_init_def fetchETA_request_def fetchETA_settled_def
      eta_rerender_def eta_render_def dashboardThrows_def)

subsection \<open>Where the functions throw\<close>

text \<open>
  The error branch of the model is inhabited: a record whose only longitude key holds null
  passes \<^verbatim>\<open>typeof lng === "object"\<close> and the read of \<^verbatim>\<open>lng.lat\<close> throws; the throw
  leaves the whole polyline computation. A null element of the bus payload does the same
  to the marker projection.
\<close>

lemma normalizePoint_null_longitude_throws:
  "normalizePoint (JObj [(''Lng'', JNull)]) = Inl TypeError \<and>
   sanitize [JObj [(''lat'', JNum (Fin 1)), (''lng'', JNum (Fin 1))], JObj [(''Lng'', JNull)]] =
     Inl TypeError \<and>
   busMarkers (JArr [JNull]) = Inl TypeError"
  by code_simp

end
